theory Spec2Isabelle
  imports Main
begin

section \<open>The input handlers of the roguelike: data model\<close>

text \<open>
  A shallow embedding of \<^verbatim>\<open>bin/input_handlers.py\<close>. The handler classes become one
  datatype, the engine a record, and every method a function that takes the engine and
  returns it updated. The collaborators that live in other modules (the actions, the
  engine's turn methods, the map query, the colour table) are parameters.
\<close>

text \<open>
  \<^verbatim>\<open>tcod.event.KeySym\<close>: the symbols the module names, and one constructor for every
  other key.
\<close>

datatype keysym =
    UP | DOWN | LEFT | RIGHT | HOME | END | PAGEUP | PAGEDOWN
  | PERIOD | ESCAPE | KEY_v | KEY_g | OtherKey nat

text \<open>The events \<^verbatim>\<open>dispatch\<close> routes: a key press, a pointer motion, a quit request, and
  any other event (for which the \<^verbatim>\<open>EventDispatch\<close> base class returns \<^verbatim>\<open>None\<close>).\<close>

datatype event = KeyDown keysym | MouseMotion int int | Quit | OtherEvent

text \<open>The actions the module constructs; \<open>'p\<close> is the entity type (the player).\<close>

datatype 'p action =
    BumpAction 'p int int
  | WaitAction 'p
  | EscapeAction 'p
  | PickupAction 'p

text \<open>
  The handler classes. Only \<^verbatim>\<open>HistoryViewer\<close> has fields of its own,
  \<^verbatim>\<open>log_length\<close> and \<^verbatim>\<open>cursor\<close>; Python integers are unbounded, so both are \<open>int\<close>.
\<close>

datatype handler =
    MainGameEventHandler
  | GameOverEventHandler
  | HistoryViewer (log_length: int) (cursor: int)
  | HelpViewer

type_synonym colour = "nat \<times> nat \<times> nat"

type_synonym message = "string \<times> colour"

text \<open>
  The engine as this module uses it: the player, the map, the messages of the log, the
  last pointer tile and the active handler. The handler methods are run on the engine's
  active handler, so \<^verbatim>\<open>self\<close> is \<open>event_handler e\<close> and an assignment to a field of
  \<^verbatim>\<open>self\<close> is an update of that field of the engine.
\<close>

record ('p, 'm) engine =
  player :: 'p
  game_map :: 'm
  message_log :: "message list"
  mouse_location :: "int \<times> int"
  event_handler :: handler

text \<open>
  What a call can raise: \<^verbatim>\<open>exceptions.Impossible\<close> with its first argument (the text
  every raise site passes), \<^verbatim>\<open>SystemExit\<close>, and any other exception.
\<close>

datatype exn = Impossible string | SystemExit | OtherException

text \<open>
  The collaborators, as parameters. \<open>perform\<close> runs an action on the engine and either
  returns or raises, in both cases leaving the engine as it then is; the two turn
  methods of the engine transform it; \<open>in_bounds\<close> is the map's query;
  \<open>color_impossible\<close> is the constant \<^verbatim>\<open>color.impossible\<close>.
\<close>

record ('p, 'm) collab =
  perform :: "'p action \<Rightarrow> ('p, 'm) engine \<Rightarrow> (exn + unit) \<times> ('p, 'm) engine"
  handle_enemy_turns :: "('p, 'm) engine \<Rightarrow> ('p, 'm) engine"
  update_fov :: "('p, 'm) engine \<Rightarrow> ('p, 'm) engine"
  in_bounds :: "'m \<Rightarrow> int \<Rightarrow> int \<Rightarrow> bool"
  color_impossible :: colour

text \<open>The calls \<^verbatim>\<open>handle_action\<close> makes to its collaborators, in the order it makes them.\<close>

datatype 'p call =
    Perform "'p action"
  | AddMessage string colour
  | HandleEnemyTurns
  | UpdateFov

section \<open>The key tables\<close>

definition MOVE_KEYS :: "keysym \<rightharpoonup> int \<times> int" where
  "MOVE_KEYS =
     [UP \<mapsto> (0, -1),
      DOWN \<mapsto> (0, 1),
      LEFT \<mapsto> (-1, 0),
      RIGHT \<mapsto> (1, 0),
      HOME \<mapsto> (-1, -1),
      END \<mapsto> (-1, 1),
      PAGEUP \<mapsto> (1, -1),
      PAGEDOWN \<mapsto> (1, 1)]"

definition WAIT_KEYS :: "keysym set" where
  "WAIT_KEYS = {PERIOD}"

definition CURSOR_Y_KEYS :: "keysym \<rightharpoonup> int" where
  "CURSOR_Y_KEYS =
     [UP \<mapsto> -1,
      DOWN \<mapsto> 1,
      PAGEUP \<mapsto> -10,
      PAGEDOWN \<mapsto> 10]"

section \<open>The message log\<close>

text \<open>
  Modelled from the spec: \<^verbatim>\<open>MessageLog.add_message(text, style)\<close>, whose module is not
  among the sources. The log is an ordered append-only sequence of (text, style) pairs,
  so adding a message puts one pair at its end.
\<close>

definition add_message :: "string \<Rightarrow> colour \<Rightarrow> ('p, 'm) engine \<Rightarrow> ('p, 'm) engine" where
  "add_message text fg e = e\<lparr>message_log := message_log e @ [(text, fg)]\<rparr>"

text \<open>Python's \<^verbatim>\<open>xs[:k]\<close>: a negative \<open>k\<close> counts from the end, and the bound is clipped.\<close>

definition py_slice_to :: "'a list \<Rightarrow> int \<Rightarrow> 'a list" where
  "py_slice_to xs k =
     (if 0 \<le> k then take (nat k) xs else take (nat (int (length xs) + k)) xs)"

section \<open>EventHandler\<close>

text \<open>
  \<^verbatim>\<open>handle_action\<close> returns what the method returns or raises, the collaborator calls
  it made, and the engine afterwards.
\<close>

definition handle_action ::
  "('p, 'm) collab \<Rightarrow> 'p action option \<Rightarrow> ('p, 'm) engine \<Rightarrow>
     (exn + bool) \<times> 'p call list \<times> ('p, 'm) engine" where
  "handle_action c action e =
     (case action of
        None \<Rightarrow> (Inr False, [], e)
      | Some a \<Rightarrow>
          (case perform c a e of
             (Inl (Impossible msg), e') \<Rightarrow>
               (Inr False,
                [Perform a, AddMessage msg (color_impossible c)],
                add_message msg (color_impossible c) e')
           | (Inl SystemExit, e') \<Rightarrow> (Inl SystemExit, [Perform a], e')
           | (Inl OtherException, e') \<Rightarrow> (Inl OtherException, [Perform a], e')
           | (Inr _, e') \<Rightarrow>
               (Inr True,
                [Perform a, HandleEnemyTurns, UpdateFov],
                update_fov c (handle_enemy_turns c e'))))"

definition ev_mousemotion ::
  "('p, 'm) collab \<Rightarrow> int \<Rightarrow> int \<Rightarrow> ('p, 'm) engine \<Rightarrow> ('p, 'm) engine" where
  "ev_mousemotion c x y e =
     (if in_bounds c (game_map e) x y then e\<lparr>mouse_location := (x, y)\<rparr> else e)"

definition ev_quit :: "('p, 'm) engine \<Rightarrow> exn + ('p action option \<times> ('p, 'm) engine)" where
  "ev_quit e = Inl SystemExit"

section \<open>HistoryViewer\<close>

definition HistoryViewer_init :: "('p, 'm) engine \<Rightarrow> handler" where
  "HistoryViewer_init e =
     (let log_length = int (length (message_log e))
      in HistoryViewer log_length (log_length - 1))"

text \<open>The messages \<^verbatim>\<open>on_render\<close> hands to \<^verbatim>\<open>render_messages\<close>: \<^verbatim>\<open>messages[: self.cursor + 1]\<close>.\<close>

definition HistoryViewer_on_render_messages :: "int \<Rightarrow> ('p, 'm) engine \<Rightarrow> message list" where
  "HistoryViewer_on_render_messages cur e = py_slice_to (message_log e) (cur + 1)"

text \<open>
  \<^verbatim>\<open>HistoryViewer.ev_keydown\<close> on a viewer with fields \<open>len\<close> and \<open>cur\<close>: the handler
  that is active afterwards. The first branch of the source evaluates
  \<^verbatim>\<open>self.cursor - self.log_length - 1\<close> and drops the value, so the viewer is unchanged
  there.
\<close>

definition HistoryViewer_ev_keydown :: "keysym \<Rightarrow> int \<Rightarrow> int \<Rightarrow> handler" where
  "HistoryViewer_ev_keydown key len cur =
     (case CURSOR_Y_KEYS key of
        Some adjust \<Rightarrow>
          if adjust < 0 \<and> cur = 0 then HistoryViewer len cur
          else if adjust > 0 \<and> cur = len - 1 then HistoryViewer len 0
          else HistoryViewer len (max 0 (min (cur + adjust) (len - 1)))
      | None \<Rightarrow>
          if key = HOME then HistoryViewer len 0
          else if key = END then HistoryViewer len (len - 1)
          else MainGameEventHandler)"

section \<open>MainGameEventHandler and GameOverEventHandler\<close>

definition MainGameEventHandler_ev_keydown ::
  "keysym \<Rightarrow> ('p, 'm) engine \<Rightarrow> 'p action option \<times> ('p, 'm) engine" where
  "MainGameEventHandler_ev_keydown key e =
     (case MOVE_KEYS key of
        Some (dx, dy) \<Rightarrow> (Some (BumpAction (player e) dx dy), e)
      | None \<Rightarrow>
          if key \<in> WAIT_KEYS then (Some (WaitAction (player e)), e)
          else if key = ESCAPE then (Some (EscapeAction (player e)), e)
          else if key = KEY_v then (None, e\<lparr>event_handler := HistoryViewer_init e\<rparr>)
          else if key = KEY_g then (Some (PickupAction (player e)), e)
          else (None, e))"

definition GameOverEventHandler_ev_keydown ::
  "keysym \<Rightarrow> ('p, 'm) engine \<Rightarrow> exn + ('p action option \<times> ('p, 'm) engine)" where
  "GameOverEventHandler_ev_keydown key e =
     (if key = ESCAPE then Inl SystemExit else Inr (None, e))"

section \<open>Dispatch\<close>

text \<open>
  \<^verbatim>\<open>ev_keydown\<close> of the active handler. \<^verbatim>\<open>HelpViewer\<close> defines no method, so it has the
  base class's, which returns \<^verbatim>\<open>None\<close>.
\<close>

definition ev_keydown ::
  "keysym \<Rightarrow> ('p, 'm) engine \<Rightarrow> exn + ('p action option \<times> ('p, 'm) engine)" where
  "ev_keydown key e =
     (case event_handler e of
        MainGameEventHandler \<Rightarrow> Inr (MainGameEventHandler_ev_keydown key e)
      | GameOverEventHandler \<Rightarrow> GameOverEventHandler_ev_keydown key e
      | HistoryViewer len cur \<Rightarrow>
          Inr (None, e\<lparr>event_handler := HistoryViewer_ev_keydown key len cur\<rparr>)
      | HelpViewer \<Rightarrow> Inr (None, e))"

definition dispatch ::
  "('p, 'm) collab \<Rightarrow> event \<Rightarrow> ('p, 'm) engine \<Rightarrow>
     exn + ('p action option \<times> ('p, 'm) engine)" where
  "dispatch c ev e =
     (case ev of
        KeyDown key \<Rightarrow> ev_keydown key e
      | MouseMotion x y \<Rightarrow> Inr (None, ev_mousemotion c x y e)
      | Quit \<Rightarrow> ev_quit e
      | OtherEvent \<Rightarrow> Inr (None, e))"

text \<open>
  \<^verbatim>\<open>handle_events\<close>: dispatch, then \<^verbatim>\<open>handle_action\<close> on what dispatch returned. The
  method returns nothing; the model keeps the boolean of \<^verbatim>\<open>handle_action\<close> (whether a
  turn elapsed) so that it can be observed.
\<close>

definition handle_events ::
  "('p, 'm) collab \<Rightarrow> event \<Rightarrow> ('p, 'm) engine \<Rightarrow>
     (exn + bool) \<times> 'p call list \<times> ('p, 'm) engine" where
  "handle_events c ev e =
     (case dispatch c ev e of
        Inl x \<Rightarrow> (Inl x, [], e)
      | Inr (action, e') \<Rightarrow> handle_action c action e')"

text \<open>
  Modelled from the spec: the event loop, whose module is not among the sources. One
  event is fully dispatched and resolved before the next is accepted; an exception ends
  the loop. The calls made accumulate.
\<close>

fun handle_all ::
  "('p, 'm) collab \<Rightarrow> event list \<Rightarrow> ('p, 'm) engine \<Rightarrow>
     (exn + unit) \<times> 'p call list \<times> ('p, 'm) engine" where
  "handle_all c [] e = (Inr (), [], e)"
| "handle_all c (ev # evs) e =
     (case handle_events c ev e of
        (Inl x, cs, e') \<Rightarrow> (Inl x, cs, e')
      | (Inr _, cs, e') \<Rightarrow>
          (case handle_all c evs e' of (r, cs', e'') \<Rightarrow> (r, cs @ cs', e'')))"

section \<open>Reference definitions and a concrete configuration\<close>

text \<open>
  The cursor the specification describes for a scroll key: the old cursor plus the step,
  clamped to the interval from 0 to \<open>len - 1\<close>. This definition follows the
  specification's words; \<open>HistoryViewer_ev_keydown\<close> is the code.
\<close>

definition clamped_cursor :: "int \<Rightarrow> int \<Rightarrow> int \<Rightarrow> int" where
  "clamped_cursor len cur adjust = max 0 (min (cur + adjust) (len - 1))"

text \<open>
  Concrete collaborators and a concrete engine, on which the handlers can be evaluated:
  entities are numbers, a map is its width and height, a bump is always blocked, an
  escape action exits, every other action succeeds, and the enemies' turn leaves a
  message.
\<close>

definition example_collab :: "(nat, int \<times> int) collab" where
  "example_collab =
     \<lparr>perform = (\<lambda>a e. case a of
          BumpAction p dx dy \<Rightarrow> (Inl (Impossible ''That way is blocked.''), e)
        | EscapeAction p \<Rightarrow> (Inl SystemExit, e)
        | _ \<Rightarrow> (Inr (), e)),
      handle_enemy_turns = add_message ''The Orc attacks you.'' (255, 192, 192),
      update_fov = (\<lambda>e. e),
      in_bounds = (\<lambda>(w, h) x y. 0 \<le> x \<and> x < w \<and> 0 \<le> y \<and> y < h),
      color_impossible = (128, 128, 128)\<rparr>"

definition example_engine :: "(nat, int \<times> int) engine" where
  "example_engine =
     \<lparr>player = 0,
      game_map = (80, 43),
      message_log = [(''Hello and welcome, adventurer!'', (32, 160, 255))],
      mouse_location = (0, 0),
      event_handler = MainGameEventHandler\<rparr>"

section \<open>The move table\<close>

text \<open>
  C6. For every key of the eight-entry move table, the key handler of the main game
  returns a bump (move) action of the player with exactly the table's (dx, dy), and
  leaves the engine, so also the active handler, as it was.
\<close>

theorem move_keys_yield_bump_actions:
  "dom MOVE_KEYS = {UP, DOWN, LEFT, RIGHT, HOME, END, PAGEUP, PAGEDOWN}
   \<and> map (\<lambda>k. MainGameEventHandler_ev_keydown k e)
       [UP, DOWN, LEFT, RIGHT, HOME, END, PAGEUP, PAGEDOWN]
     = map (\<lambda>(dx, dy). (Some (BumpAction (player e) dx dy), e))
       [(0, -1), (0, 1), (-1, 0), (1, 0), (-1, -1), (-1, 1), (1, -1), (1, 1)]"
  by (auto simp: MOVE_KEYS_def MainGameEventHandler_ev_keydown_def split: if_splits)

section \<open>The turn resolver\<close>

text \<open>
  C2. When the action's \<^verbatim>\<open>perform\<close> raises \<^verbatim>\<open>Impossible\<close> with message \<open>msg\<close>,
  leaving the engine as \<open>e'\<close>, \<^verbatim>\<open>handle_action\<close> returns \<^verbatim>\<open>False\<close>; the calls it
  made are the perform and one \<^verbatim>\<open>add_message\<close> with the impossible colour, so neither
  the enemies' turn nor the recomputation of the field of view was called; and the
  engine afterwards is \<open>e'\<close> with exactly the one message (msg, impossible colour)
  appended to its log.
\<close>

theorem impossible_action_logs_and_skips_turn:
  assumes "perform c a e = (Inl (Impossible msg), e')"
  shows "handle_action c (Some a) e =
           (Inr False,
            [Perform a, AddMessage msg (color_impossible c)],
            e'\<lparr>message_log := message_log e' @ [(msg, color_impossible c)]\<rparr>)"
  using assms by (simp add: handle_action_def add_message_def)

theorem impossible_action_logs_and_skips_turn_witness:
  "perform example_collab (BumpAction 0 0 (-1)) example_engine =
     (Inl (Impossible ''That way is blocked.''), example_engine)
   \<and> handle_action example_collab (Some (BumpAction 0 0 (-1))) example_engine =
       (Inr False,
        [Perform (BumpAction 0 0 (-1)), AddMessage ''That way is blocked.'' (128, 128, 128)],
        example_engine\<lparr>message_log :=
          [(''Hello and welcome, adventurer!'', (32, 160, 255)),
           (''That way is blocked.'', (128, 128, 128))]\<rparr>)"
proof -
  have p: "perform example_collab (BumpAction 0 0 (-1)) example_engine =
     (Inl (Impossible ''That way is blocked.''), example_engine)"
    by (simp add: example_collab_def)
  have l: "message_log example_engine = [(''Hello and welcome, adventurer!'', (32, 160, 255))]"
    by (simp add: example_engine_def)
  have i: "color_impossible example_collab = (128, 128, 128)"
    by (simp add: example_collab_def)
  show ?thesis
    using p impossible_action_logs_and_skips_turn [OF p] by (simp add: l i)
qed

text \<open>
  C3. When the action's \<^verbatim>\<open>perform\<close> returns, leaving the engine as \<open>e'\<close>,
  \<^verbatim>\<open>handle_action\<close> calls the enemies' turn and then the recomputation of the field of
  view, in that order (the engine afterwards is the second applied to the result of the
  first), and returns \<^verbatim>\<open>True\<close>.
\<close>

theorem successful_action_advances_turn:
  assumes "perform c a e = (Inr u, e')"
  shows "handle_action c (Some a) e =
           (Inr True,
            [Perform a, HandleEnemyTurns, UpdateFov],
            update_fov c (handle_enemy_turns c e'))"
  using assms by (simp add: handle_action_def)

theorem successful_action_advances_turn_witness:
  "perform example_collab (WaitAction 0) example_engine = (Inr (), example_engine)
   \<and> handle_action example_collab (Some (WaitAction 0)) example_engine =
       (Inr True,
        [Perform (WaitAction 0), HandleEnemyTurns, UpdateFov],
        example_engine\<lparr>message_log :=
          [(''Hello and welcome, adventurer!'', (32, 160, 255)),
           (''The Orc attacks you.'', (255, 192, 192))]\<rparr>)"
proof -
  have p: "perform example_collab (WaitAction 0) example_engine = (Inr (), example_engine)"
    by (simp add: example_collab_def)
  have t: "update_fov example_collab (handle_enemy_turns example_collab example_engine) =
      example_engine\<lparr>message_log :=
          [(''Hello and welcome, adventurer!'', (32, 160, 255)),
           (''The Orc attacks you.'', (255, 192, 192))]\<rparr>"
    by (simp add: example_collab_def example_engine_def add_message_def)
  show ?thesis
    using p successful_action_advances_turn [OF p] by (simp add: t)
qed

section \<open>Opening the history viewer\<close>

text \<open>
  C4. With the main game handler active, the key \<^verbatim>\<open>v\<close> yields no action, and replaces
  the active handler by a history viewer whose \<^verbatim>\<open>log_length\<close> is the number of messages
  in the log at that moment and whose cursor is \<^verbatim>\<open>log_length - 1\<close>. Handling the whole
  event calls no collaborator and reports that no turn elapsed.
\<close>

theorem view_history_key_opens_viewer:
  assumes "event_handler e = MainGameEventHandler"
  shows "ev_keydown KEY_v e =
           Inr (None, e\<lparr>event_handler :=
             HistoryViewer (int (length (message_log e))) (int (length (message_log e)) - 1)\<rparr>)
         \<and> handle_events c (KeyDown KEY_v) e =
           (Inr False, [], e\<lparr>event_handler :=
             HistoryViewer (int (length (message_log e))) (int (length (message_log e)) - 1)\<rparr>)"
  using assms
  by (simp add: handle_events_def dispatch_def ev_keydown_def handle_action_def
      MainGameEventHandler_ev_keydown_def MOVE_KEYS_def WAIT_KEYS_def HistoryViewer_init_def
      Let_def)

theorem view_history_key_opens_viewer_witness:
  "event_handler example_engine = MainGameEventHandler
   \<and> ev_keydown KEY_v example_engine =
       Inr (None, example_engine\<lparr>event_handler := HistoryViewer 1 0\<rparr>)
   \<and> handle_events example_collab (KeyDown KEY_v) example_engine =
       (Inr False, [], example_engine\<lparr>event_handler := HistoryViewer 1 0\<rparr>)"
proof -
  have h: "event_handler example_engine = MainGameEventHandler"
    by (simp add: example_engine_def)
  have l: "length (message_log example_engine) = 1"
    by (simp add: example_engine_def)
  show ?thesis
    using h view_history_key_opens_viewer [OF h, of example_collab] by (simp add: l)
qed

section \<open>Scrolling the history viewer\<close>

text \<open>
  The clamp alone is not what the scroll keys do: with five messages and the cursor on
  the newest (index 4), the down key (step 1) sets the cursor to 0, where clamping
  gives 4.
\<close>

theorem scroll_clamp_counterexample:
  "(0::int) < 5 \<and> CURSOR_Y_KEYS DOWN = Some 1
   \<and> HistoryViewer_ev_keydown DOWN 5 4 = HistoryViewer 5 0
   \<and> clamped_cursor 5 4 1 = 4
   \<and> HistoryViewer_ev_keydown DOWN 5 4 \<noteq> HistoryViewer 5 (clamped_cursor 5 4 1)"
  by (simp add: CURSOR_Y_KEYS_def HistoryViewer_ev_keydown_def clamped_cursor_def)

text \<open>
  C1 (amended). The scroll keys are exactly up, down, page-up and page-down with the
  steps -1, 1, -10 and 10. For such a key, the cursor after the key press is 0 when the
  step is positive and the cursor is at \<^verbatim>\<open>log_length - 1\<close> (it wraps to the oldest
  message); in every other case it is the old cursor plus the step, clamped to the
  interval from 0 to \<^verbatim>\<open>log_length - 1\<close>, which at cursor 0 under a negative step is 0.
  \<^verbatim>\<open>log_length\<close> does not change.
\<close>

theorem scroll_keys_clamp_or_wrap:
  "((CURSOR_Y_KEYS key = Some adjust) =
      ((key, adjust) \<in> {(UP, -1), (DOWN, 1), (PAGEUP, -10), (PAGEDOWN, 10)}))
   \<and> (CURSOR_Y_KEYS key = Some adjust \<longrightarrow>
        HistoryViewer_ev_keydown key len cur =
          HistoryViewer len
            (if 0 < adjust \<and> cur = len - 1 then 0 else clamped_cursor len cur adjust))"
  by (auto simp: CURSOR_Y_KEYS_def HistoryViewer_ev_keydown_def clamped_cursor_def split: if_splits)

theorem scroll_keys_clamp_or_wrap_witness:
  "CURSOR_Y_KEYS DOWN = Some 1
   \<and> HistoryViewer_ev_keydown DOWN 5 4 = HistoryViewer 5 0
   \<and> HistoryViewer_ev_keydown DOWN 5 2 = HistoryViewer 5 3
   \<and> CURSOR_Y_KEYS PAGEUP = Some (-10)
   \<and> HistoryViewer_ev_keydown PAGEUP 5 4 = HistoryViewer 5 0"
  using scroll_keys_clamp_or_wrap [of DOWN 1 5 4]
    scroll_keys_clamp_or_wrap [of DOWN 1 5 2]
    scroll_keys_clamp_or_wrap [of PAGEUP "-10" 5 4]
  by (simp add: clamped_cursor_def)

text \<open>
  C5. The cursor of the history viewer stays in range. Opening the viewer on a log that
  is not empty gives a viewer with \<^verbatim>\<open>0 < log_length\<close> and
  \<^verbatim>\<open>0 \<le> cursor \<le> log_length - 1\<close>; and from a viewer with \<^verbatim>\<open>0 < log_length\<close> whose
  cursor is in that range, each of the keys that keep the viewer active (the four scroll
  keys, home and end) yields no action and leaves a viewer with the same
  \<^verbatim>\<open>log_length\<close> and a cursor in that range.
\<close>

theorem history_cursor_invariant:
  "(event_handler e = MainGameEventHandler \<and> message_log e \<noteq> [] \<longrightarrow>
      (\<exists>len cur. ev_keydown KEY_v e = Inr (None, e\<lparr>event_handler := HistoryViewer len cur\<rparr>)
         \<and> 0 < len \<and> 0 \<le> cur \<and> cur \<le> len - 1))
   \<and> (event_handler e = HistoryViewer len cur \<and> 0 < len \<and> 0 \<le> cur \<and> cur \<le> len - 1
        \<and> key \<in> {UP, DOWN, PAGEUP, PAGEDOWN, HOME, END} \<longrightarrow>
      (\<exists>cur'. ev_keydown key e = Inr (None, e\<lparr>event_handler := HistoryViewer len cur'\<rparr>)
         \<and> 0 \<le> cur' \<and> cur' \<le> len - 1))"
proof (intro conjI impI)
  assume "event_handler e = MainGameEventHandler \<and> message_log e \<noteq> []"
  then show "\<exists>len cur. ev_keydown KEY_v e = Inr (None, e\<lparr>event_handler := HistoryViewer len cur\<rparr>)
         \<and> 0 < len \<and> 0 \<le> cur \<and> cur \<le> len - 1"
    by (intro exI [of _ "int (length (message_log e))"]
        exI [of _ "int (length (message_log e)) - 1"])
      (simp add: ev_keydown_def MainGameEventHandler_ev_keydown_def MOVE_KEYS_def
        WAIT_KEYS_def HistoryViewer_init_def Let_def)
next
  assume a: "event_handler e = HistoryViewer len cur \<and> 0 < len \<and> 0 \<le> cur \<and> cur \<le> len - 1
        \<and> key \<in> {UP, DOWN, PAGEUP, PAGEDOWN, HOME, END}"
  then have "\<exists>cur'. HistoryViewer_ev_keydown key len cur = HistoryViewer len cur'
      \<and> 0 \<le> cur' \<and> cur' \<le> len - 1"
    by (auto simp: HistoryViewer_ev_keydown_def CURSOR_Y_KEYS_def)
  with a show "\<exists>cur'. ev_keydown key e = Inr (None, e\<lparr>event_handler := HistoryViewer len cur'\<rparr>)
         \<and> 0 \<le> cur' \<and> cur' \<le> len - 1"
    by (auto simp: ev_keydown_def)
qed

theorem history_cursor_invariant_witness:
  "event_handler example_engine = MainGameEventHandler \<and> message_log example_engine \<noteq> []
   \<and> (\<exists>len cur. ev_keydown KEY_v example_engine =
          Inr (None, example_engine\<lparr>event_handler := HistoryViewer len cur\<rparr>)
        \<and> 0 < len \<and> 0 \<le> cur \<and> cur \<le> len - 1)
   \<and> event_handler (example_engine\<lparr>event_handler := HistoryViewer 5 4\<rparr>) = HistoryViewer 5 4
   \<and> (0::int) < 5 \<and> (0::int) \<le> 4 \<and> (4::int) \<le> 5 - 1
   \<and> DOWN \<in> {UP, DOWN, PAGEUP, PAGEDOWN, HOME, END}
   \<and> (\<exists>cur'. ev_keydown DOWN (example_engine\<lparr>event_handler := HistoryViewer 5 4\<rparr>) =
          Inr (None, example_engine\<lparr>event_handler := HistoryViewer 5 cur'\<rparr>)
        \<and> 0 \<le> cur' \<and> cur' \<le> 5 - 1)"
proof -
  have h: "event_handler example_engine = MainGameEventHandler \<and> message_log example_engine \<noteq> []"
    by (simp add: example_engine_def)
  show ?thesis
    using h history_cursor_invariant [of example_engine 5 4 DOWN]
      history_cursor_invariant [of "example_engine\<lparr>event_handler := HistoryViewer 5 4\<rparr>" 5 4 DOWN]
    by simp
qed

text \<open>
  C7. In the history viewer the home key sets the cursor to 0 and the end key sets it to
  \<^verbatim>\<open>log_length - 1\<close>. Any key other than the four scroll keys, home and end yields no
  action and replaces the active handler by the main game handler, the rest of the
  engine unchanged; handling the whole event does this one replacement, calls no
  collaborator and reports that no turn elapsed.
\<close>

theorem history_home_end_and_exit:
  assumes "event_handler e = HistoryViewer len cur"
  shows "ev_keydown HOME e = Inr (None, e\<lparr>event_handler := HistoryViewer len 0\<rparr>)
         \<and> ev_keydown END e = Inr (None, e\<lparr>event_handler := HistoryViewer len (len - 1)\<rparr>)
         \<and> (key \<notin> {UP, DOWN, PAGEUP, PAGEDOWN, HOME, END} \<longrightarrow>
              ev_keydown key e = Inr (None, e\<lparr>event_handler := MainGameEventHandler\<rparr>)
              \<and> handle_events c (KeyDown key) e =
                  (Inr False, [], e\<lparr>event_handler := MainGameEventHandler\<rparr>))"
  using assms
  by (simp add: ev_keydown_def HistoryViewer_ev_keydown_def CURSOR_Y_KEYS_def
      handle_events_def dispatch_def handle_action_def)

theorem history_home_end_and_exit_witness:
  "event_handler (example_engine\<lparr>event_handler := HistoryViewer 5 2\<rparr>) = HistoryViewer 5 2
   \<and> ev_keydown HOME (example_engine\<lparr>event_handler := HistoryViewer 5 2\<rparr>) =
       Inr (None, example_engine\<lparr>event_handler := HistoryViewer 5 0\<rparr>)
   \<and> ev_keydown END (example_engine\<lparr>event_handler := HistoryViewer 5 2\<rparr>) =
       Inr (None, example_engine\<lparr>event_handler := HistoryViewer 5 4\<rparr>)
   \<and> ESCAPE \<notin> {UP, DOWN, PAGEUP, PAGEDOWN, HOME, END}
   \<and> ev_keydown ESCAPE (example_engine\<lparr>event_handler := HistoryViewer 5 2\<rparr>) =
       Inr (None, example_engine\<lparr>event_handler := MainGameEventHandler\<rparr>)
   \<and> handle_events example_collab (KeyDown ESCAPE)
         (example_engine\<lparr>event_handler := HistoryViewer 5 2\<rparr>) =
       (Inr False, [], example_engine\<lparr>event_handler := MainGameEventHandler\<rparr>)"
  using history_home_end_and_exit
    [of "example_engine\<lparr>event_handler := HistoryViewer 5 2\<rparr>" 5 2 ESCAPE example_collab]
  by simp

section \<open>Pointer motion\<close>

text \<open>
  C8. Whatever handler is active, a pointer motion to a tile inside the map's bounds
  sets the stored pointer location to that tile and changes nothing else; a motion to
  a tile outside the bounds leaves the whole engine unchanged. Handling the event
  yields no action, calls no collaborator and reports that no turn elapsed.
\<close>

theorem mouse_motion_updates_in_bounds_only:
  "(in_bounds c (game_map e) x y \<longrightarrow> ev_mousemotion c x y e = e\<lparr>mouse_location := (x, y)\<rparr>)
   \<and> (\<not> in_bounds c (game_map e) x y \<longrightarrow> ev_mousemotion c x y e = e)
   \<and> handle_events c (MouseMotion x y) e = (Inr False, [], ev_mousemotion c x y e)"
  by (simp add: ev_mousemotion_def handle_events_def dispatch_def handle_action_def)

theorem mouse_motion_updates_in_bounds_only_witness:
  "in_bounds example_collab (game_map example_engine) 10 20
   \<and> ev_mousemotion example_collab 10 20 example_engine =
       example_engine\<lparr>mouse_location := (10, 20)\<rparr>
   \<and> handle_events example_collab (MouseMotion 10 20) example_engine =
       (Inr False, [], example_engine\<lparr>mouse_location := (10, 20)\<rparr>)
   \<and> \<not> in_bounds example_collab (game_map example_engine) 80 20
   \<and> ev_mousemotion example_collab 80 20 example_engine = example_engine
   \<and> handle_events example_collab (MouseMotion 80 20) example_engine =
       (Inr False, [], example_engine)"
proof -
  have i: "in_bounds example_collab (game_map example_engine) 10 20"
    by (simp add: example_collab_def example_engine_def)
  have o: "\<not> in_bounds example_collab (game_map example_engine) 80 20"
    by (simp add: example_collab_def example_engine_def)
  show ?thesis
    using i o mouse_motion_updates_in_bounds_only [of example_collab example_engine 10 20]
      mouse_motion_updates_in_bounds_only [of example_collab example_engine 80 20]
    by simp
qed

section \<open>Game over\<close>

text \<open>
  C9. With the game-over handler active, the escape key raises \<^verbatim>\<open>SystemExit\<close> instead
  of returning an action, and so does handling the whole event; every other key yields
  no action and leaves the engine unchanged, and handling the event calls no
  collaborator and reports that no turn elapsed.
\<close>

theorem game_over_only_escape_exits:
  assumes "event_handler e = GameOverEventHandler"
  shows "ev_keydown ESCAPE e = Inl SystemExit
         \<and> handle_events c (KeyDown ESCAPE) e = (Inl SystemExit, [], e)
         \<and> (key \<noteq> ESCAPE \<longrightarrow>
              ev_keydown key e = Inr (None, e)
              \<and> handle_events c (KeyDown key) e = (Inr False, [], e))"
  using assms
  by (simp add: ev_keydown_def GameOverEventHandler_ev_keydown_def handle_events_def
      dispatch_def handle_action_def)

theorem game_over_only_escape_exits_witness:
  "event_handler (example_engine\<lparr>event_handler := GameOverEventHandler\<rparr>) = GameOverEventHandler
   \<and> ev_keydown ESCAPE (example_engine\<lparr>event_handler := GameOverEventHandler\<rparr>) = Inl SystemExit
   \<and> handle_events example_collab (KeyDown ESCAPE)
        (example_engine\<lparr>event_handler := GameOverEventHandler\<rparr>) =
       (Inl SystemExit, [], example_engine\<lparr>event_handler := GameOverEventHandler\<rparr>)
   \<and> UP \<noteq> ESCAPE
   \<and> ev_keydown UP (example_engine\<lparr>event_handler := GameOverEventHandler\<rparr>) =
       Inr (None, example_engine\<lparr>event_handler := GameOverEventHandler\<rparr>)
   \<and> handle_events example_collab (KeyDown UP)
        (example_engine\<lparr>event_handler := GameOverEventHandler\<rparr>) =
       (Inr False, [], example_engine\<lparr>event_handler := GameOverEventHandler\<rparr>)"
  using game_over_only_escape_exits
    [of "example_engine\<lparr>event_handler := GameOverEventHandler\<rparr>" example_collab UP]
  by simp

section \<open>The history viewer on an empty log\<close>

text \<open>
  On an empty log the viewer has \<^verbatim>\<open>log_length\<close> 0, and the scroll keys, home and end
  move its cursor between -1 and 0 only.
\<close>

lemma history_key_on_empty_log:
  assumes "cur \<in> {-1, 0}" and "key \<in> {UP, DOWN, PAGEUP, PAGEDOWN, HOME, END}"
  shows "\<exists>cur' \<in> {-1, 0}. HistoryViewer_ev_keydown key 0 cur = HistoryViewer 0 cur'"
  using assms by (auto simp: HistoryViewer_ev_keydown_def CURSOR_Y_KEYS_def)

lemma handle_events_history_key:
  assumes "event_handler e = HistoryViewer len cur"
  shows "handle_events c (KeyDown key) e =
           (Inr False, [], e\<lparr>event_handler := HistoryViewer_ev_keydown key len cur\<rparr>)"
  using assms by (simp add: handle_events_def dispatch_def ev_keydown_def handle_action_def)

lemma handle_all_history_keys_on_empty_log:
  assumes "event_handler e = HistoryViewer 0 cur" and "cur \<in> {-1, 0}"
    and "set ks \<subseteq> {UP, DOWN, PAGEUP, PAGEDOWN, HOME, END}"
  shows "\<exists>cur' \<in> {-1, 0}. handle_all c (map KeyDown ks) e =
           (Inr (), [], e\<lparr>event_handler := HistoryViewer 0 cur'\<rparr>)"
  using assms
proof (induction ks arbitrary: e cur)
  case Nil
  then have "e\<lparr>event_handler := HistoryViewer 0 cur\<rparr> = e" by simp
  with Nil show ?case by (intro bexI [of _ cur]) simp_all
next
  case (Cons k ks)
  from Cons.prems obtain cur1 where c1: "cur1 \<in> {-1, 0}"
    and k: "HistoryViewer_ev_keydown k 0 cur = HistoryViewer 0 cur1"
    using history_key_on_empty_log [of cur k] by auto
  let ?e1 = "e\<lparr>event_handler := HistoryViewer 0 cur1\<rparr>"
  have step: "handle_events c (KeyDown k) e = (Inr False, [], ?e1)"
    using handle_events_history_key [OF Cons.prems(1)] k by simp
  have "event_handler ?e1 = HistoryViewer 0 cur1" by simp
  from Cons.IH [OF this c1] Cons.prems(3)
  obtain cur' where c': "cur' \<in> {-1, 0}"
    and r: "handle_all c (map KeyDown ks) ?e1 =
           (Inr (), [], ?e1\<lparr>event_handler := HistoryViewer 0 cur'\<rparr>)"
    by auto
  show ?case
    using c' r step by (intro bexI [of _ cur']) simp_all
qed

lemma py_slice_to_Nil: "py_slice_to [] k = []"
  by (simp add: py_slice_to_def)

text \<open>
  C10. When the viewer is opened on an empty log, its \<^verbatim>\<open>log_length\<close> is 0 and its cursor
  is -1, and the messages it renders are none. After any sequence of scroll, home and
  end keys the viewer is still active, no collaborator has been called, the log is
  still empty, the cursor is -1 or 0, and the messages the viewer renders are still
  none.
\<close>

theorem empty_history_view_stays_empty:
  assumes "message_log e = []" and "event_handler e = MainGameEventHandler"
    and "set ks \<subseteq> {UP, DOWN, PAGEUP, PAGEDOWN, HOME, END}"
  shows "handle_events c (KeyDown KEY_v) e =
           (Inr False, [], e\<lparr>event_handler := HistoryViewer 0 (-1)\<rparr>)
         \<and> HistoryViewer_on_render_messages (-1) (e\<lparr>event_handler := HistoryViewer 0 (-1)\<rparr>) = []
         \<and> (\<exists>cur \<in> {-1, 0}.
              handle_all c (map KeyDown (KEY_v # ks)) e =
                (Inr (), [], e\<lparr>event_handler := HistoryViewer 0 cur\<rparr>)
              \<and> message_log (e\<lparr>event_handler := HistoryViewer 0 cur\<rparr>) = []
              \<and> HistoryViewer_on_render_messages cur (e\<lparr>event_handler := HistoryViewer 0 cur\<rparr>) = [])"
proof -
  let ?e0 = "e\<lparr>event_handler := HistoryViewer 0 (-1)\<rparr>"
  have open_viewer: "handle_events c (KeyDown KEY_v) e = (Inr False, [], ?e0)"
    using assms(1,2)
    by (simp add: handle_events_def dispatch_def ev_keydown_def handle_action_def
        MainGameEventHandler_ev_keydown_def MOVE_KEYS_def WAIT_KEYS_def HistoryViewer_init_def)
  have rendered: "HistoryViewer_on_render_messages cur (e\<lparr>event_handler := h\<rparr>) = []" for cur h
    using assms(1) by (simp add: HistoryViewer_on_render_messages_def py_slice_to_Nil)
  have "event_handler ?e0 = HistoryViewer 0 (-1)" by simp
  from handle_all_history_keys_on_empty_log [OF this _ assms(3), of c]
  obtain cur where c: "cur \<in> {-1, 0}"
    and r: "handle_all c (map KeyDown ks) ?e0 =
           (Inr (), [], ?e0\<lparr>event_handler := HistoryViewer 0 cur\<rparr>)"
    by auto
  have "handle_all c (map KeyDown (KEY_v # ks)) e =
          (Inr (), [], e\<lparr>event_handler := HistoryViewer 0 cur\<rparr>)"
    using open_viewer r by simp
  with c assms(1) rendered have
    "\<exists>cur \<in> {-1, 0}.
        handle_all c (map KeyDown (KEY_v # ks)) e =
          (Inr (), [], e\<lparr>event_handler := HistoryViewer 0 cur\<rparr>)
        \<and> message_log (e\<lparr>event_handler := HistoryViewer 0 cur\<rparr>) = []
        \<and> HistoryViewer_on_render_messages cur (e\<lparr>event_handler := HistoryViewer 0 cur\<rparr>) = []"
    by (intro bexI [of _ cur]) simp_all
  with open_viewer rendered show ?thesis by simp
qed

theorem empty_history_view_stays_empty_witness:
  "message_log (example_engine\<lparr>message_log := []\<rparr>) = []
   \<and> event_handler (example_engine\<lparr>message_log := []\<rparr>) = MainGameEventHandler
   \<and> set [UP, PAGEDOWN, HOME, DOWN] \<subseteq> {UP, DOWN, PAGEUP, PAGEDOWN, HOME, END}
   \<and> handle_events example_collab (KeyDown KEY_v) (example_engine\<lparr>message_log := []\<rparr>) =
       (Inr False, [],
        example_engine\<lparr>message_log := [], event_handler := HistoryViewer 0 (-1)\<rparr>)
   \<and> (\<exists>cur \<in> {-1, 0}.
        handle_all example_collab (map KeyDown [KEY_v, UP, PAGEDOWN, HOME, DOWN])
            (example_engine\<lparr>message_log := []\<rparr>) =
          (Inr (), [], example_engine\<lparr>message_log := [], event_handler := HistoryViewer 0 cur\<rparr>)
        \<and> HistoryViewer_on_render_messages cur
            (example_engine\<lparr>message_log := [], event_handler := HistoryViewer 0 cur\<rparr>) = [])"
proof -
  have h: "event_handler (example_engine\<lparr>message_log := []\<rparr>) = MainGameEventHandler"
    by (simp add: example_engine_def)
  have l: "message_log (example_engine\<lparr>message_log := []\<rparr>) = []"
    by simp
  have k: "set [UP, PAGEDOWN, HOME, DOWN] \<subseteq> {UP, DOWN, PAGEUP, PAGEDOWN, HOME, END}"
    by simp
  show ?thesis
    using h l k empty_history_view_stays_empty [OF l h k, of example_collab]
    by blast
qed

end
